theory Spec2Isabelle
  imports Main
begin

section \<open>Decoded JSON and the Python operations the adapters apply to it\<close>

text \<open>
  Both adapters receive the body of a response after the transport has decoded it, so a
  response is a Python value built from \<open>None\<close>, booleans, integers, floats, strings,
  lists and dictionaries. Floats are kept abstract (type \<open>'f\<close>): the adapters never
  compute with them, they only convert to them, test them for zero and pass them on.
  A dictionary is an association list read with \<open>map_of\<close> (the first binding of a key is
  the dictionary's entry). A string is a list of bytes, so indexing or iterating a string
  gives bytes where Python gives code points; the two agree on ASCII text.
\<close>

datatype 'f json =
    JNull
  | JBool bool
  | JInt int
  | JFloat 'f
  | JStr string
  | JArr "'f json list"
  | JObj "(string \<times> 'f json) list"

text \<open>
  Every exception the modelled code can raise is a value. \<open>GeocoderServiceError\<close> carries
  the object whose \<open>str\<close> is the message. \<open>Unmodelled\<close> marks a format template outside
  the fragment of \<open>%\<close>-formatting that \<open>py_percent\<close> below interprets.
\<close>

datatype 'f error =
    GeocoderServiceError "'f json"
  | KeyError
  | TypeError
  | AttributeError
  | IndexError
  | ValueError
  | OverflowError
  | Unmodelled

text \<open>
  What the program needs of Python's floats: \<open>float(i)\<close> for an integer (it overflows for
  huge ones), \<open>float(s)\<close> for a string (it rejects most), and truthiness.
\<close>

record 'f float_ops =
  float_of_int :: "int \<Rightarrow> 'f option"
  float_of_str :: "string \<Rightarrow> 'f option"
  float_nonzero :: "'f \<Rightarrow> bool"

definition ebind :: "'e + 'a \<Rightarrow> ('a \<Rightarrow> 'e + 'b) \<Rightarrow> 'e + 'b" where
  "ebind m k = (case m of Inl e \<Rightarrow> Inl e | Inr x \<Rightarrow> k x)"

text \<open>A loop that appends one computed element per input element and stops at the first
  exception.\<close>

fun emap :: "('a \<Rightarrow> 'e + 'b) \<Rightarrow> 'a list \<Rightarrow> 'e + 'b list" where
  "emap f [] = Inr []"
| "emap f (x # xs) =
     (case f x of
        Inl e \<Rightarrow> Inl e
      | Inr y \<Rightarrow> (case emap f xs of Inl e \<Rightarrow> Inl e | Inr ys \<Rightarrow> Inr (y # ys)))"

fun starts_with :: "string \<Rightarrow> string \<Rightarrow> bool" where
  "starts_with [] s = True"
| "starts_with (p # ps) [] = False"
| "starts_with (p # ps) (c # cs) = (p = c \<and> starts_with ps cs)"

fun contains_str :: "string \<Rightarrow> string \<Rightarrow> bool" where
  "contains_str p [] = (p = [])"
| "contains_str p (c # cs) = (starts_with p (c # cs) \<or> contains_str p cs)"

text \<open>\<open>k in x\<close> for a string \<open>k\<close>.\<close>

fun py_in :: "string \<Rightarrow> 'f json \<Rightarrow> 'f error + bool" where
  "py_in k (JObj kvs) = Inr (k \<in> set (map fst kvs))"
| "py_in k (JArr xs) = Inr (JStr k \<in> set xs)"
| "py_in k (JStr s) = Inr (contains_str k s)"
| "py_in k _ = Inl TypeError"

text \<open>\<open>x[k]\<close> for a string \<open>k\<close>.\<close>

fun py_getitem :: "'f json \<Rightarrow> string \<Rightarrow> 'f error + 'f json" where
  "py_getitem (JObj kvs) k = (case map_of kvs k of None \<Rightarrow> Inl KeyError | Some v \<Rightarrow> Inr v)"
| "py_getitem _ k = Inl TypeError"

text \<open>\<open>x[i]\<close> for a non-negative integer \<open>i\<close>. A decoded dictionary has string keys only.\<close>

fun py_index :: "'f json \<Rightarrow> nat \<Rightarrow> 'f error + 'f json" where
  "py_index (JArr xs) i = (if i < length xs then Inr (xs ! i) else Inl IndexError)"
| "py_index (JStr s) i = (if i < length s then Inr (JStr [s ! i]) else Inl IndexError)"
| "py_index (JObj kvs) i = Inl KeyError"
| "py_index _ i = Inl TypeError"

text \<open>\<open>x.get(k, d)\<close>.\<close>

fun py_get :: "'f json \<Rightarrow> string \<Rightarrow> 'f json \<Rightarrow> 'f error + 'f json" where
  "py_get (JObj kvs) k d = Inr (case map_of kvs k of None \<Rightarrow> d | Some v \<Rightarrow> v)"
| "py_get _ k d = Inl AttributeError"

text \<open>Truthiness, as \<open>if x\<close> and \<open>and\<close> test it.\<close>

fun py_truthy :: "'f float_ops \<Rightarrow> 'f json \<Rightarrow> bool" where
  "py_truthy F JNull = False"
| "py_truthy F (JBool b) = b"
| "py_truthy F (JInt i) = (i \<noteq> 0)"
| "py_truthy F (JFloat x) = float_nonzero F x"
| "py_truthy F (JStr s) = (s \<noteq> [])"
| "py_truthy F (JArr xs) = (xs \<noteq> [])"
| "py_truthy F (JObj kvs) = (kvs \<noteq> [])"

text \<open>\<open>for y in x\<close>: a list gives its elements, a dictionary its keys, a string its
  characters; nothing else is iterable.\<close>

fun py_iter :: "'f json \<Rightarrow> 'f error + 'f json list" where
  "py_iter (JArr xs) = Inr xs"
| "py_iter (JObj kvs) = Inr (map JStr (remdups (map fst kvs)))"
| "py_iter (JStr s) = Inr (map (\<lambda>c. JStr [c]) s)"
| "py_iter _ = Inl TypeError"

text \<open>\<open>float(x)\<close>.\<close>

fun py_float :: "'f float_ops \<Rightarrow> 'f json \<Rightarrow> 'f error + 'f" where
  "py_float F (JFloat x) = Inr x"
| "py_float F (JInt i) = (case float_of_int F i of None \<Rightarrow> Inl OverflowError | Some x \<Rightarrow> Inr x)"
| "py_float F (JBool b) =
     (case float_of_int F (if b then 1 else 0) of None \<Rightarrow> Inl OverflowError | Some x \<Rightarrow> Inr x)"
| "py_float F (JStr s) = (case float_of_str F s of None \<Rightarrow> Inl ValueError | Some x \<Rightarrow> Inr x)"
| "py_float F _ = Inl TypeError"

text \<open>\<open>s.split(c)\<close> for a one-character separator: always at least one field.\<close>

fun split_on :: "char \<Rightarrow> string \<Rightarrow> string list" where
  "split_on c [] = [[]]"
| "split_on c (x # xs) =
     (if x = c then [] # split_on c xs
      else (case split_on c xs of [] \<Rightarrow> [[x]] | f # fs \<Rightarrow> (x # f) # fs))"

section \<open>The result type\<close>

text \<open>
  Modelled from the spec: the class \<open>Location\<close> (geopy.location) is not among the sources.
  The spec describes it as an immutable value holding a display name (text or absent), a
  coordinate pair (latitude, longitude) and the raw payload; the constructor call
  \<open>Location(name, (lat, lng), raw)\<close> is the record below. An absent name is \<open>JNull\<close>
  (Python's \<open>None\<close>).
\<close>

record ('v, 'c) Location =
  address :: 'v
  point :: "'c \<times> 'c"
  raw :: 'v

text \<open>What a parser returns for one item: \<open>None\<close>, one Location, or a list of them.\<close>

datatype 'l found = RNone | ROne 'l | RMany "'l list"

section \<open>Vendor A: parsing a batch response (azure.py)\<close>

text \<open>Lines 202 to 208: the coordinates of one result, from its \<open>position\<close>.\<close>

definition extract_position :: "'f float_ops \<Rightarrow> 'f json \<Rightarrow> 'f error + ('f \<times> 'f)" where
  "extract_position F position =
     (case position of
        JObj kvs \<Rightarrow>
          ebind (py_get position ''lat'' JNull) (\<lambda>a.
          ebind (py_float F a) (\<lambda>lat.
          ebind (py_get position ''lon'' JNull) (\<lambda>b.
          ebind (py_float F b) (\<lambda>lng. Inr (lat, lng)))))
      | JStr s \<Rightarrow>
          (case split_on CHR '','' s of
             [] \<Rightarrow> Inl IndexError
           | f0 # fs \<Rightarrow>
               ebind (py_float F (JStr f0)) (\<lambda>lat.
               (case fs of
                  [] \<Rightarrow> Inl IndexError
                | f1 # _ \<Rightarrow> ebind (py_float F (JStr f1)) (\<lambda>lng. Inr (lat, lng)))))
      | _ \<Rightarrow> Inl AttributeError)"

text \<open>Lines 200 to 216: the body of the loop over the results of one item.\<close>

definition parse_result :: "'f float_ops \<Rightarrow> 'f json \<Rightarrow> 'f error + ('f json, 'f) Location" where
  "parse_result F result =
     ebind (py_get result ''address'' (JObj [])) (\<lambda>addr.
     ebind (py_get result ''position'' (JObj [])) (\<lambda>position.
     ebind (extract_position F position) (\<lambda>p.
     ebind (py_get addr ''freeformAddress'' JNull) (\<lambda>name.
       Inr \<lparr>address = name, point = p, raw = result\<rparr>))))"

text \<open>Lines 197 to 222: the body of the loop over the batch items.\<close>

definition parse_item ::
  "'f float_ops \<Rightarrow> string \<Rightarrow> bool \<Rightarrow> 'f json \<Rightarrow> 'f error + ('f json, 'f) Location found" where
  "parse_item F key exactly_one item =
     ebind (py_getitem item ''response'') (\<lambda>response.
     ebind (py_in key response) (\<lambda>has.
     ebind (if has then py_getitem response key else Inr JNull) (\<lambda>rs.
       if has \<and> py_truthy F rs then
         ebind (py_iter rs) (\<lambda>xs.
         ebind (emap (parse_result F) xs) (\<lambda>results.
           if exactly_one then
             (case results of [] \<Rightarrow> Inl IndexError | r # _ \<Rightarrow> Inr (ROne r))
           else Inr (RMany results)))
       else if exactly_one then Inr RNone
       else Inr (RMany []))))"

text \<open>Lines 187 to 224.\<close>

definition parse_batch_response ::
  "'f float_ops \<Rightarrow> 'f json \<Rightarrow> bool \<Rightarrow> bool \<Rightarrow> 'f error + ('f json, 'f) Location found list" where
  "parse_batch_response F r_json exactly_one is_reverse =
     (let key = (if is_reverse then ''addresses'' else ''results'') in
      ebind (py_in ''error'' r_json) (\<lambda>has_error.
        if has_error then
          ebind (py_getitem r_json ''error'') (\<lambda>e. Inl (GeocoderServiceError e))
        else
          ebind (py_get r_json ''batchItems'' (JArr [])) (\<lambda>items.
          ebind (py_iter items) (\<lambda>xs.
            emap (parse_item F key exactly_one) xs))))"

section \<open>Vendor B: parsing feature collections (maptiler.py)\<close>

text \<open>Lines 85 to 90: the closure \<open>parse_feature\<close>. The subscript \<open>feature['center']\<close> is
  evaluated twice, index 0 (the longitude) first.\<close>

definition parse_feature :: "'f json \<Rightarrow> 'f error + ('f json, 'f json) Location" where
  "parse_feature feature =
     ebind (py_getitem feature ''place_name'') (\<lambda>location.
     ebind (py_getitem feature ''center'') (\<lambda>c0.
     ebind (py_index c0 0) (\<lambda>longitude.
     ebind (py_getitem feature ''center'') (\<lambda>c1.
     ebind (py_index c1 1) (\<lambda>latitude.
       Inr \<lparr>address = location, point = (latitude, longitude), raw = feature\<rparr>)))))"

text \<open>Lines 79 to 94: the method \<open>_parse_feature\<close>.\<close>

definition MapTiler_parse_feature ::
  "'f float_ops \<Rightarrow> 'f json \<Rightarrow> bool \<Rightarrow> 'f error + ('f json, 'f json) Location found" where
  "MapTiler_parse_feature F feature exactly_one =
     ebind (py_getitem feature ''features'') (\<lambda>features.
       if \<not> py_truthy F features then Inr RNone
       else if exactly_one then
         ebind (py_index features 0) (\<lambda>f.
         ebind (parse_feature f) (\<lambda>l. Inr (ROne l)))
       else
         ebind (py_iter features) (\<lambda>fs.
         ebind (emap parse_feature fs) (\<lambda>ls. Inr (RMany ls))))"

text \<open>Lines 74 to 77: one collection gives one result, anything else is iterated.\<close>

datatype 'r parsed = Single 'r | Batch "'r list"

definition MapTiler_parse_json ::
  "'f float_ops \<Rightarrow> 'f json \<Rightarrow> bool \<Rightarrow> 'f error + ('f json, 'f json) Location found parsed" where
  "MapTiler_parse_json F json exactly_one =
     (case json of
        JObj kvs \<Rightarrow> ebind (MapTiler_parse_feature F json exactly_one) (\<lambda>r. Inr (Single r))
      | _ \<Rightarrow>
          ebind (py_iter json) (\<lambda>cs.
          ebind (emap (\<lambda>feature. MapTiler_parse_feature F feature exactly_one) cs) (\<lambda>rs.
            Inr (Batch rs))))"

section \<open>Building requests\<close>

subsection \<open>urllib.parse and string formatting\<close>

text \<open>
  Strings are byte strings here: a \<open>char\<close> is one byte of the UTF-8 encoding, which is
  what \<open>quote\<close> works on. \<open>quote(s, safe)\<close> keeps the letters, digits and \<open>_.-~\<close> and the
  bytes of \<open>safe\<close>, and writes every other byte as \<open>%XX\<close> in upper-case hexadecimal.
\<close>

definition always_safe :: string where
  "always_safe = ''ABCDEFGHIJKLMNOPQRSTUVWXYZabcdefghijklmnopqrstuvwxyz0123456789_.-~''"

definition hex_digit :: "nat \<Rightarrow> char" where
  "hex_digit n = ''0123456789ABCDEF'' ! (n mod 16)"

definition quote_byte :: "string \<Rightarrow> char \<Rightarrow> string" where
  "quote_byte safe c =
     (if c \<in> set always_safe \<or> c \<in> set safe then [c]
      else [CHR ''%'', hex_digit (of_char c div 16), hex_digit (of_char c mod 16)])"

definition py_quote :: "string \<Rightarrow> string \<Rightarrow> string" where
  "py_quote safe s = concat (map (quote_byte safe) s)"

text \<open>\<open>quote(s)\<close> with its default \<open>safe='/'\<close>.\<close>

definition quote :: "string \<Rightarrow> string" where
  "quote s = py_quote ''/'' s"

text \<open>\<open>quote_plus(s)\<close>: nothing extra is safe, and a space becomes \<open>+\<close>.\<close>

definition quote_plus :: "string \<Rightarrow> string" where
  "quote_plus s = concat (map (\<lambda>c. if c = CHR '' '' then ''+'' else quote_byte [] c) s)"

text \<open>\<open>sep.join(xs)\<close>.\<close>

fun py_join :: "string \<Rightarrow> string list \<Rightarrow> string" where
  "py_join sep [] = []"
| "py_join sep [x] = x"
| "py_join sep (x # y # ys) = x @ sep @ py_join sep (y # ys)"

text \<open>\<open>urlencode(params)\<close> for a dictionary of strings, in insertion order.\<close>

definition urlencode :: "(string \<times> string) list \<Rightarrow> string" where
  "urlencode params = py_join ''&'' (map (\<lambda>(k, v). quote_plus k @ ''='' @ quote_plus v) params)"

text \<open>\<open>d[k] = v\<close> on an insertion-ordered dictionary.\<close>

fun dict_set :: "'k \<Rightarrow> 'v \<Rightarrow> ('k \<times> 'v) list \<Rightarrow> ('k \<times> 'v) list" where
  "dict_set k v [] = [(k, v)]"
| "dict_set k v (p # ps) = (if fst p = k then (k, v) # ps else p # dict_set k v ps)"

text \<open>
  \<open>template % mapping\<close> for a mapping of strings, on the fragment the adapters use: the
  template's conversion specifiers are \<open>%%\<close> and \<open>%(key)s\<close> with a key free of
  parentheses. A missing key is a KeyError. On any other specifier Python raises or formats
  differently, and the model answers \<open>Unmodelled\<close>.
\<close>

function (sequential) py_percent :: "string \<Rightarrow> (string \<times> string) list \<Rightarrow> 'f error + string" where
  "py_percent [] m = Inr []"
| "py_percent (c # cs) m =
     (if c \<noteq> CHR ''%'' then
        (case py_percent cs m of Inl e \<Rightarrow> Inl e | Inr out \<Rightarrow> Inr (c # out))
      else
        (case cs of
           [] \<Rightarrow> Inl Unmodelled
         | d # r \<Rightarrow>
             if d = CHR ''%'' then
               (case py_percent r m of Inl e \<Rightarrow> Inl e | Inr out \<Rightarrow> Inr (CHR ''%'' # out))
             else if d = CHR ''('' then
               (if CHR ''('' \<in> set (takeWhile (\<lambda>x. x \<noteq> CHR '')'') r) then Inl Unmodelled
                else
                  (case dropWhile (\<lambda>x. x \<noteq> CHR '')'') r of
                     p # t # r' \<Rightarrow>
                       if t = CHR ''s'' then
                         (case map_of m (takeWhile (\<lambda>x. x \<noteq> CHR '')'') r) of
                            None \<Rightarrow> Inl KeyError
                          | Some v \<Rightarrow>
                              (case py_percent r' m of
                                 Inl e \<Rightarrow> Inl e
                               | Inr out \<Rightarrow> Inr (v @ out)))
                       else Inl Unmodelled
                   | _ \<Rightarrow> Inl Unmodelled))
             else Inl Unmodelled))"
  by pat_completeness auto
termination
proof (relation "measure (\<lambda>(s, m). length s)", goal_cases)
  case 1
  show ?case by simp
next
  case 2
  then show ?case by simp
next
  case 3
  then show ?case by simp
next
  case (4 c cs m d r p ts t r')
  have "length (dropWhile (\<lambda>x. x \<noteq> CHR '')'') r) \<le> length r"
    by (rule length_dropWhile_le)
  with 4 show ?case by simp
qed

text \<open>\<open>s.strip('/')\<close>.\<close>

definition strip_slash :: "string \<Rightarrow> string" where
  "strip_slash s =
     rev (dropWhile (\<lambda>c. c = CHR ''/'') (rev (dropWhile (\<lambda>c. c = CHR ''/'') s)))"

subsection \<open>The adapters' state and what they hand to the transport\<close>

text \<open>
  The attributes the modelled methods read. \<open>scheme\<close> and \<open>api_key\<close> are set by the
  constructors of the parent classes (the shared base, and for Vendor A its sibling
  adapter), which are not among the sources: the model's constructors take the resolved
  scheme as an argument.
\<close>

record Geocoder =
  scheme :: string
  api_key :: string
  max_batch_size :: nat

record AzureMaps = Geocoder +
  api_batch :: string
  api_reverse_batch :: string

record MapTiler = Geocoder +
  domain :: string
  api :: string

text \<open>
  A method that ends in \<open>self._call_geocoder(url, callback, timeout=..., headers=...,
  data=...)\<close> hands the request to the transport of the shared base. The model returns the
  arguments of that call. \<open>headers\<close> and \<open>data\<close> are \<open>None\<close> where the call omits them.
\<close>

record ('f, 'cb, 't) geocoder_call =
  url :: string
  callback :: 'cb
  timeout :: 't
  headers :: "(string \<times> string) list option"
  data :: "'f json option"

subsection \<open>Vendor A (azure.py)\<close>

definition batch_geocode_path :: string where
  "batch_geocode_path = ''/search/address/batch/sync/json''"

definition batch_reverse_path :: string where
  "batch_reverse_path = ''/search/address/reverse/batch/sync/json''"

text \<open>Lines 75 to 79, after the parent's constructor has set the key and the scheme.\<close>

definition AzureMaps_init :: "string \<Rightarrow> string \<Rightarrow> string \<Rightarrow> AzureMaps" where
  "AzureMaps_init subscription_key sch dmn =
     \<lparr>scheme = sch, api_key = subscription_key, max_batch_size = 1000,
      api_batch = sch @ ''://'' @ dmn @ batch_geocode_path,
      api_reverse_batch = sch @ ''://'' @ dmn @ batch_reverse_path\<rparr>"

definition batch_geocode_params :: "AzureMaps \<Rightarrow> (string \<times> string) list" where
  "batch_geocode_params self = [(''api-version'', ''1.0''), (''subscription-key'', api_key self)]"

definition geocode_params :: "AzureMaps \<Rightarrow> string \<Rightarrow> (string \<times> string) list" where
  "geocode_params self formatted_query =
     [(''api-version'', ''1.0''), (''subscription-key'', api_key self),
      (''query'', formatted_query)]"

definition reverse_params :: "AzureMaps \<Rightarrow> string \<Rightarrow> (string \<times> string) list" where
  "reverse_params self position =
     [(''api-version'', ''1.0''), (''subscription-key'', api_key self), (''query'', position)]"

text \<open>Lines 145 to 151: the loop appends one item per address to \<open>data["batchItems"]\<close>.\<close>

fun batch_geocode_items :: "bool \<Rightarrow> string list \<Rightarrow> 'f json list \<Rightarrow> 'f json list" where
  "batch_geocode_items exactly_one [] items = items"
| "batch_geocode_items exactly_one (location # rest) items =
     batch_geocode_items exactly_one rest
       (items @ [JObj [(''query'',
          JStr ((if exactly_one then ''?limit=1&'' else ''?'') @ ''query='' @ quote_plus location))]])"

text \<open>
  Lines 168 to 174: every element of the query is unpacked into exactly two values (a
  ValueError otherwise), each written with \<open>str\<close> (the parameter \<open>str_of\<close>).
\<close>

fun batch_reverse_items ::
  "('c \<Rightarrow> string) \<Rightarrow> bool \<Rightarrow> 'c list list \<Rightarrow> 'f json list \<Rightarrow> 'f error + 'f json list" where
  "batch_reverse_items str_of exactly_one [] items = Inr items"
| "batch_reverse_items str_of exactly_one (q # rest) items =
     (case q of
        [lat, lng] \<Rightarrow>
          batch_reverse_items str_of exactly_one rest
            (items @ [JObj [(''query'',
               JStr ((if exactly_one then ''?limit=1&'' else ''?'')
                     @ ''query='' @ str_of lat @ '','' @ str_of lng))]])
      | _ \<Rightarrow> Inl ValueError)"

type_synonym ('f, 't) azure_call =
  "('f, 'f json \<Rightarrow> 'f error + ('f json, 'f) Location found list, 't) geocoder_call"

text \<open>Lines 141 to 162. The arguments \<open>limit\<close> and \<open>typeahead\<close> are not read; \<open>language\<close>
  is \<open>None\<close> or a string, and \<open>if language:\<close> passes a non-empty string.\<close>

definition AzureMaps_batch_geocode ::
  "'f float_ops \<Rightarrow> AzureMaps \<Rightarrow> string list \<Rightarrow> bool \<Rightarrow> 't \<Rightarrow> string option \<Rightarrow> ('f, 't) azure_call" where
  "AzureMaps_batch_geocode F self query exactly_one tmo language =
     (let params = batch_geocode_params self;
          items = batch_geocode_items exactly_one query [];
          params = (case language of
                      None \<Rightarrow> params
                    | Some l \<Rightarrow> if l \<noteq> [] then dict_set ''language'' l params else params)
      in \<lparr>url = py_join ''?'' [api_batch self, urlencode params],
          callback = (\<lambda>r_json. parse_batch_response F r_json exactly_one False),
          timeout = tmo,
          headers = Some [(''Content-Type'', ''application/json'')],
          data = Some (JObj [(''batchItems'', JArr items)])\<rparr>)"

text \<open>Lines 164 to 185.\<close>

definition AzureMaps_batch_reverse ::
  "'f float_ops \<Rightarrow> ('c \<Rightarrow> string) \<Rightarrow> AzureMaps \<Rightarrow> 'c list list \<Rightarrow> bool \<Rightarrow> 't \<Rightarrow> string option
     \<Rightarrow> 'f error + ('f, 't) azure_call" where
  "AzureMaps_batch_reverse F str_of self query exactly_one tmo language =
     ebind (batch_reverse_items str_of exactly_one query []) (\<lambda>items.
       (let params = batch_geocode_params self;
            params = (case language of
                        None \<Rightarrow> params
                      | Some l \<Rightarrow> if l \<noteq> [] then dict_set ''language'' l params else params)
        in Inr \<lparr>url = py_join ''?'' [api_reverse_batch self, urlencode params],
                callback = (\<lambda>r_json. parse_batch_response F r_json exactly_one True),
                timeout = tmo,
                headers = Some [(''Content-Type'', ''application/json'')],
                data = Some (JObj [(''batchItems'', JArr items)])\<rparr>))"

subsection \<open>Vendor B (maptiler.py)\<close>

text \<open>
  Modelled from the spec: the class \<open>Point\<close> (geopy.point) is not among the sources. The
  spec calls it a structured point of two floating-point values in degrees, which a
  caller may also supply as a (lat, lng) pair or as a string; \<open>PtSeq\<close> is a tuple of
  coordinates. A \<open>Point\<close> object is truthy, a tuple or a string is truthy when non-empty.
\<close>

record 'f Point =
  latitude :: 'f
  longitude :: 'f

datatype 'f point_like = PtPoint "'f Point" | PtSeq "'f list" | PtStr string

fun truthy_point :: "'f point_like \<Rightarrow> bool" where
  "truthy_point (PtPoint p) = True"
| "truthy_point (PtSeq xs) = (xs \<noteq> [])"
| "truthy_point (PtStr s) = (s \<noteq> [])"

text \<open>
  The helpers of the shared base that \<open>_geocode\<close> and \<open>_reverse\<close> call are not among the
  sources, so these methods take them as parameters: \<open>self._format_bounding_box(bbox,
  template)\<close>, \<open>self._coerce_point_to_string(point, template)\<close>, the constructor
  \<open>Point(x)\<close>, and \<open>str\<close> of a float (what \<open>%s\<close> writes).
\<close>

record 'f base =
  format_bounding_box :: "'f point_like list \<Rightarrow> string \<Rightarrow> 'f error + string"
  coerce_point_to_string :: "'f point_like \<Rightarrow> string \<Rightarrow> 'f error + string"
  to_Point :: "'f point_like \<Rightarrow> 'f error + 'f Point"
  str_of_float :: "'f \<Rightarrow> string"

text \<open>A query is one item or a Python list of items (\<open>isinstance(query, list)\<close>).\<close>

datatype 'a query = Scalar 'a | Listed "'a list"

definition api_path :: string where
  "api_path = ''/geocoding/%(query)s.json''"

text \<open>Lines 69 to 72, after the base's constructor has resolved the scheme.\<close>

definition MapTiler_init :: "string \<Rightarrow> string \<Rightarrow> string \<Rightarrow> MapTiler" where
  "MapTiler_init key sch dmn =
     \<lparr>scheme = sch, api_key = key, max_batch_size = 3,
      domain = strip_slash dmn,
      api = sch @ ''://'' @ strip_slash dmn @ api_path\<rparr>"

text \<open>
  Lines 164 to 167, and again 235 to 238: a single string becomes a one-element list, and
  a non-empty list is joined with commas into \<open>params['language']\<close>.
\<close>

definition set_language ::
  "string query option \<Rightarrow> (string \<times> string) list \<Rightarrow> (string \<times> string) list" where
  "set_language language params =
     (let language = (case language of Some (Scalar s) \<Rightarrow> Some (Listed [s]) | other \<Rightarrow> other)
      in case language of
           Some (Listed (l # ls)) \<Rightarrow> dict_set ''language'' (py_join '','' (l # ls)) params
         | _ \<Rightarrow> params)"

type_synonym ('f, 't) maptiler_call =
  "('f, 'f json \<Rightarrow> 'f error + ('f json, 'f json) Location found parsed, 't) geocoder_call"

text \<open>Lines 152 to 177: the method \<open>_geocode\<close>.\<close>

definition MapTiler_geocode ::
  "'f base \<Rightarrow> 'f float_ops \<Rightarrow> MapTiler \<Rightarrow> string query \<Rightarrow> 't \<Rightarrow> 'f point_like option
     \<Rightarrow> string query option \<Rightarrow> 'f point_like list option \<Rightarrow> bool
     \<Rightarrow> 'f error + ('f, 't) maptiler_call" where
  "MapTiler_geocode B F self query tmo proximity language bbox exactly_one =
     (let params = [(''key'', api_key self)];
          q = (case query of
                 Listed qs \<Rightarrow> py_join '';'' (map quote qs)
               | Scalar s \<Rightarrow> quote s)
      in
      ebind (case bbox of
               Some (b # bs) \<Rightarrow>
                 ebind (format_bounding_box B (b # bs) ''%(lon1)s,%(lat1)s,%(lon2)s,%(lat2)s'')
                   (\<lambda>s. Inr (dict_set ''bbox'' s params))
             | _ \<Rightarrow> Inr params) (\<lambda>params.
      let params = set_language language params in
      ebind (case proximity of
               None \<Rightarrow> Inr params
             | Some x \<Rightarrow>
                 if truthy_point x then
                   ebind (to_Point B x) (\<lambda>p.
                     Inr (dict_set ''proximity''
                            (str_of_float B (longitude p) @ '','' @ str_of_float B (latitude p))
                            params))
                 else Inr params) (\<lambda>params.
      ebind (py_percent (api self) [(''query'', q)]) (\<lambda>path.
        Inr \<lparr>url = py_join ''?'' [path, urlencode params],
             callback = (\<lambda>json. MapTiler_parse_json F json exactly_one),
             timeout = tmo, headers = None, data = None\<rparr>))))"

text \<open>Lines 222 to 243: the method \<open>_reverse\<close>.\<close>

definition MapTiler_reverse ::
  "'f base \<Rightarrow> 'f float_ops \<Rightarrow> MapTiler \<Rightarrow> 'f point_like query \<Rightarrow> 't \<Rightarrow> string query option \<Rightarrow> bool
     \<Rightarrow> 'f error + ('f, 't) maptiler_call" where
  "MapTiler_reverse B F self query tmo language exactly_one =
     ebind (case query of
              Listed qs \<Rightarrow>
                ebind (emap (\<lambda>q. coerce_point_to_string B q ''%(lon)s,%(lat)s'') qs)
                  (\<lambda>ss. Inr (py_join '';'' ss))
            | Scalar x \<Rightarrow>
                ebind (coerce_point_to_string B x ''%(lon)s,%(lat)s'')
                  (\<lambda>s. Inr (quote s))) (\<lambda>q.
     let params = [(''key'', api_key self)];
         params = set_language language params
     in
     ebind (py_percent (api self) [(''query'', q)]) (\<lambda>path.
       Inr \<lparr>url = py_join ''?'' [path, urlencode params],
            callback = (\<lambda>json. MapTiler_parse_json F json exactly_one),
            timeout = tmo, headers = None, data = None\<rparr>))"

subsection \<open>Method calls as steps on the adapter\<close>

text \<open>
  A method runs on the adapter object and could assign its attributes, so a call is a
  function from the adapter before the call to what the call gave (a value, or the
  exception raised) and the adapter after it.
\<close>

type_synonym ('s, 'f, 'r) py_method = "'s \<Rightarrow> ('f error + 'r) \<times> 's"

text \<open>
  The methods of the parent classes that the two files call are not among the sources, so
  they are parameters, each a step of the same kind and free to change the adapter:
  \<open>self._call_geocoder(url, callback, ...)\<close>, which performs the request, and
  \<open>self._apply_batchwise(query, method, ...)\<close>, which runs the given method on parts of
  the query list and passes the keyword arguments on to it. The helper is generic in the
  items of the list; the record holds it at the two types it is used at. \<open>'r\<close> is the
  type of the values these methods return.
\<close>

record ('s, 'call, 'a, 'b, 'f, 'r) base_methods =
  call_geocoder :: "'call \<Rightarrow> ('s, 'f, 'r) py_method"
  apply_batchwise_geocode :: "'a list \<Rightarrow> ('a list \<Rightarrow> ('s, 'f, 'r) py_method) \<Rightarrow> ('s, 'f, 'r) py_method"
  apply_batchwise_reverse :: "'b list \<Rightarrow> ('b list \<Rightarrow> ('s, 'f, 'r) py_method) \<Rightarrow> ('s, 'f, 'r) py_method"

text \<open>Vendor A also calls \<open>super().geocode\<close> and \<open>super().reverse\<close> of its sibling
  adapter.\<close>

record ('c, 't, 'f, 'r) tomtom_methods =
  "(AzureMaps, ('f, 't) azure_call, string, 'c list, 'f, 'r) base_methods" +
  super_geocode ::
    "string \<Rightarrow> bool \<Rightarrow> 't \<Rightarrow> int option \<Rightarrow> bool \<Rightarrow> string option \<Rightarrow> (AzureMaps, 'f, 'r) py_method"
  super_reverse :: "'c list \<Rightarrow> bool \<Rightarrow> 't \<Rightarrow> string option \<Rightarrow> (AzureMaps, 'f, 'r) py_method"


text \<open>azure.py, lines 141 to 162 in full: the request is built and handed to
  \<open>_call_geocoder\<close>.\<close>

definition AzureMaps_call_batch_geocode ::
  "('c, 't, 'f, 'r, 'm) tomtom_methods_scheme \<Rightarrow> 'f float_ops \<Rightarrow> string list \<Rightarrow> bool \<Rightarrow> 't
     \<Rightarrow> string option \<Rightarrow> (AzureMaps, 'f, 'r) py_method" where
  "AzureMaps_call_batch_geocode P F query exactly_one tmo language self =
     call_geocoder P (AzureMaps_batch_geocode F self query exactly_one tmo language) self"

text \<open>azure.py, lines 164 to 185 in full: a ValueError of the loop is raised before
  anything is requested.\<close>

definition AzureMaps_call_batch_reverse ::
  "('c, 't, 'f, 'r, 'm) tomtom_methods_scheme \<Rightarrow> 'f float_ops \<Rightarrow> ('c \<Rightarrow> string) \<Rightarrow> 'c list list
     \<Rightarrow> bool \<Rightarrow> 't \<Rightarrow> string option \<Rightarrow> (AzureMaps, 'f, 'r) py_method" where
  "AzureMaps_call_batch_reverse P F S query exactly_one tmo language self =
     (case AzureMaps_batch_reverse F S self query exactly_one tmo language of
        Inl e \<Rightarrow> (Inl e, self)
      | Inr c \<Rightarrow> call_geocoder P c self)"

text \<open>azure.py, lines 81 to 108: the public \<open>geocode\<close>.\<close>

definition AzureMaps_geocode ::
  "('c, 't, 'f, 'r, 'm) tomtom_methods_scheme \<Rightarrow> 'f float_ops \<Rightarrow> string query \<Rightarrow> bool \<Rightarrow> 't
     \<Rightarrow> int option \<Rightarrow> bool \<Rightarrow> string option \<Rightarrow> (AzureMaps, 'f, 'r) py_method" where
  "AzureMaps_geocode P F query exactly_one tmo limit typeahead language self =
     (case query of
        Listed qs \<Rightarrow>
          apply_batchwise_geocode P qs
            (\<lambda>part. AzureMaps_call_batch_geocode P F part exactly_one tmo language) self
      | Scalar q \<Rightarrow> super_geocode P q exactly_one tmo limit typeahead language self)"

text \<open>azure.py, lines 110 to 133: the public \<open>reverse\<close>.\<close>

definition AzureMaps_reverse ::
  "('c, 't, 'f, 'r, 'm) tomtom_methods_scheme \<Rightarrow> 'f float_ops \<Rightarrow> ('c \<Rightarrow> string) \<Rightarrow> 'c list query
     \<Rightarrow> bool \<Rightarrow> 't \<Rightarrow> string option \<Rightarrow> (AzureMaps, 'f, 'r) py_method" where
  "AzureMaps_reverse P F S query exactly_one tmo language self =
     (case query of
        Listed qs \<Rightarrow>
          apply_batchwise_reverse P qs
            (\<lambda>part. AzureMaps_call_batch_reverse P F S part exactly_one tmo language) self
      | Scalar q \<Rightarrow> super_reverse P q exactly_one tmo language self)"

text \<open>Every method that azure.py defines, as an operation on the adapter.\<close>

datatype ('f, 'c, 't) azure_op =
    A_geocode "string query" bool 't "int option" bool "string option"
  | A_reverse "'c list query" bool 't "string option"
  | A_batch_geocode_params
  | A_batch_geocode "string list" bool 't "string option"
  | A_batch_reverse "'c list list" bool 't "string option"
  | A_parse_batch_response "'f json" bool bool
  | A_geocode_params string
  | A_reverse_params string

datatype ('f, 'r) azure_outcome =
    A_returned "'f error + 'r"
  | A_params "(string \<times> string) list"
  | A_parsed "'f error + ('f json, 'f) Location found list"

fun AzureMaps_step ::
  "('c, 't, 'f, 'r, 'm) tomtom_methods_scheme \<Rightarrow> 'f float_ops \<Rightarrow> ('c \<Rightarrow> string)
     \<Rightarrow> ('f, 'c, 't) azure_op \<Rightarrow> AzureMaps \<Rightarrow> ('f, 'r) azure_outcome \<times> AzureMaps" where
  "AzureMaps_step P F S (A_geocode q eo tmo limit typeahead lang) self =
     apfst A_returned (AzureMaps_geocode P F q eo tmo limit typeahead lang self)"
| "AzureMaps_step P F S (A_reverse q eo tmo lang) self =
     apfst A_returned (AzureMaps_reverse P F S q eo tmo lang self)"
| "AzureMaps_step P F S A_batch_geocode_params self = (A_params (batch_geocode_params self), self)"
| "AzureMaps_step P F S (A_batch_geocode q eo tmo lang) self =
     apfst A_returned (AzureMaps_call_batch_geocode P F q eo tmo lang self)"
| "AzureMaps_step P F S (A_batch_reverse q eo tmo lang) self =
     apfst A_returned (AzureMaps_call_batch_reverse P F S q eo tmo lang self)"
| "AzureMaps_step P F S (A_parse_batch_response r eo is_rev) self =
     (A_parsed (parse_batch_response F r eo is_rev), self)"
| "AzureMaps_step P F S (A_geocode_params q) self = (A_params (geocode_params self q), self)"
| "AzureMaps_step P F S (A_reverse_params p) self = (A_params (reverse_params self p), self)"

fun AzureMaps_run ::
  "('c, 't, 'f, 'r, 'm) tomtom_methods_scheme \<Rightarrow> 'f float_ops \<Rightarrow> ('c \<Rightarrow> string) \<Rightarrow> AzureMaps
     \<Rightarrow> ('f, 'c, 't) azure_op list \<Rightarrow> AzureMaps" where
  "AzureMaps_run P F S self [] = self"
| "AzureMaps_run P F S self (c # cs) = AzureMaps_run P F S (snd (AzureMaps_step P F S c self)) cs"












section \<open>Instances for evaluating the model\<close>

text \<open>
  A stand-in for Python's floats when the model is run on a concrete input: whole
  numbers, read from and written as decimal literals.
\<close>

definition digit_of :: "char \<Rightarrow> nat option" where
  "digit_of c =
     (let n = (of_char c :: nat) in if 48 \<le> n \<and> n \<le> 57 then Some (n - 48) else None)"

fun nat_of_digits :: "nat \<Rightarrow> string \<Rightarrow> nat option" where
  "nat_of_digits acc [] = Some acc"
| "nat_of_digits acc (c # cs) =
     (case digit_of c of None \<Rightarrow> None | Some d \<Rightarrow> nat_of_digits (10 * acc + d) cs)"

definition int_of_str :: "string \<Rightarrow> int option" where
  "int_of_str s =
     (case s of
        [] \<Rightarrow> None
      | c # cs \<Rightarrow>
          if c = CHR ''-'' then
            (if cs = [] then None else map_option (\<lambda>n. - int n) (nat_of_digits 0 cs))
          else map_option int (nat_of_digits 0 s))"

function str_nat :: "nat \<Rightarrow> string" where
  "str_nat n =
     (if n < 10 then [''0123456789'' ! n]
      else str_nat (n div 10) @ [''0123456789'' ! (n mod 10)])"
  by pat_completeness auto
termination
  by (relation "measure (\<lambda>n. n)") auto

definition str_int :: "int \<Rightarrow> string" where
  "str_int i = (if i < 0 then CHR ''-'' # str_nat (nat (- i)) else str_nat (nat i))"

definition whole_floats :: "int float_ops" where
  "whole_floats =
     \<lparr>float_of_int = Some, float_of_str = int_of_str, float_nonzero = (\<lambda>x. x \<noteq> 0)\<rparr>"

text \<open>
  Modelled from the spec: the helpers \<open>Point(x)\<close>, \<open>_coerce_point_to_string\<close> and
  \<open>_format_bounding_box\<close> of the shared base are not among the sources. The spec says that
  a coordinate input (a structured point, a (lat, lng) pair or a string "lat,lng") is
  normalised to a structured point before it is formatted into a request, and that the
  bounding box is written from two such points. The templates name the coordinates
  \<open>lat\<close>, \<open>lon\<close> and \<open>lat1\<close>, \<open>lon1\<close>, \<open>lat2\<close>, \<open>lon2\<close>.
\<close>

fun spec_Point :: "'f float_ops \<Rightarrow> 'f point_like \<Rightarrow> 'f error + 'f Point" where
  "spec_Point F (PtPoint p) = Inr p"
| "spec_Point F (PtSeq xs) =
     (case xs of
        [lat, lng] \<Rightarrow> Inr \<lparr>latitude = lat, longitude = lng\<rparr>
      | _ \<Rightarrow> Inl ValueError)"
| "spec_Point F (PtStr s) =
     (case split_on CHR '','' s of
        [a, b] \<Rightarrow>
          ebind (py_float F (JStr a)) (\<lambda>lat.
          ebind (py_float F (JStr b)) (\<lambda>lng.
            Inr \<lparr>latitude = lat, longitude = lng\<rparr>))
      | _ \<Rightarrow> Inl ValueError)"

definition spec_coerce_point_to_string ::
  "'f float_ops \<Rightarrow> ('f \<Rightarrow> string) \<Rightarrow> 'f point_like \<Rightarrow> string \<Rightarrow> 'f error + string" where
  "spec_coerce_point_to_string F S x template =
     ebind (spec_Point F x) (\<lambda>p.
       py_percent template [(''lat'', S (latitude p)), (''lon'', S (longitude p))])"

definition spec_format_bounding_box ::
  "'f float_ops \<Rightarrow> ('f \<Rightarrow> string) \<Rightarrow> 'f point_like list \<Rightarrow> string \<Rightarrow> 'f error + string" where
  "spec_format_bounding_box F S bbox template =
     (case bbox of
        [x1, x2] \<Rightarrow>
          ebind (spec_Point F x1) (\<lambda>p1.
          ebind (spec_Point F x2) (\<lambda>p2.
            py_percent template
              [(''lat1'', S (latitude p1)), (''lon1'', S (longitude p1)),
               (''lat2'', S (latitude p2)), (''lon2'', S (longitude p2))]))
      | _ \<Rightarrow> Inl ValueError)"

definition spec_base :: "'f float_ops \<Rightarrow> ('f \<Rightarrow> string) \<Rightarrow> 'f base" where
  "spec_base F S =
     \<lparr>format_bounding_box = spec_format_bounding_box F S,
      coerce_point_to_string = spec_coerce_point_to_string F S,
      to_Point = spec_Point F,
      str_of_float = S\<rparr>"

section \<open>The query parameters as the specification words them\<close>

text \<open>
  For comparison with \<open>MapTiler_geocode\<close> and \<open>MapTiler_reverse\<close>: the optional
  parameters of a Vendor-B request, each present only when its argument is given. \<open>bbox\<close>
  is what the base's helper writes for the template \<open>lon1,lat1,lon2,lat2\<close>, \<open>language\<close>
  is the comma-joined list (a single string counting as a one-element list), and
  \<open>proximity\<close> is \<open>lon,lat\<close> of the point.
\<close>

definition bbox_param :: "'f base \<Rightarrow> 'f point_like list option \<Rightarrow> 'f error + (string \<times> string) list" where
  "bbox_param B bbox =
     (case bbox of
        None \<Rightarrow> Inr []
      | Some [] \<Rightarrow> Inr []
      | Some (b # bs) \<Rightarrow>
          (case format_bounding_box B (b # bs) ''%(lon1)s,%(lat1)s,%(lon2)s,%(lat2)s'' of
             Inl e \<Rightarrow> Inl e
           | Inr s \<Rightarrow> Inr [(''bbox'', s)]))"

definition language_param :: "string query option \<Rightarrow> (string \<times> string) list" where
  "language_param language =
     (case language of
        None \<Rightarrow> []
      | Some (Scalar s) \<Rightarrow> [(''language'', s)]
      | Some (Listed []) \<Rightarrow> []
      | Some (Listed (l # ls)) \<Rightarrow> [(''language'', py_join '','' (l # ls))])"

definition proximity_param :: "'f base \<Rightarrow> 'f point_like option \<Rightarrow> 'f error + (string \<times> string) list" where
  "proximity_param B proximity =
     (case proximity of
        None \<Rightarrow> Inr []
      | Some x \<Rightarrow>
          if truthy_point x then
            (case to_Point B x of
               Inl e \<Rightarrow> Inl e
             | Inr p \<Rightarrow>
                 Inr [(''proximity'',
                       str_of_float B (longitude p) @ '','' @ str_of_float B (latitude p))])
          else Inr [])"

section \<open>Sample inputs\<close>

text \<open>A Vendor-A batch response: the first item has two results, one with a structured
  position and one with a position string; the second item has an empty result set.\<close>

definition sample_result :: "(string \<times> int json) list" where
  "sample_result =
     [(''address'', JObj [(''freeformAddress'', JStr ''1 Microsoft Way, Redmond'')]),
      (''position'', JObj [(''lat'', JInt 47), (''lon'', JInt (- 122))])]"

definition sample_result_str :: "(string \<times> int json) list" where
  "sample_result_str = [(''position'', JStr ''48,-121'')]"

definition sample_empty_item :: "(string \<times> int json) list" where
  "sample_empty_item =
     [(''statusCode'', JInt 200), (''response'', JObj [(''results'', JArr [])])]"

definition sample_items :: "int json list" where
  "sample_items =
     [JObj [(''statusCode'', JInt 200),
            (''response'', JObj [(''results'', JArr [JObj sample_result, JObj sample_result_str])])],
      JObj sample_empty_item]"

definition sample_batch :: "(string \<times> int json) list" where
  "sample_batch =
     [(''summary'', JObj [(''totalRequests'', JInt 2)]), (''batchItems'', JArr sample_items)]"

text \<open>A Vendor-B feature collection whose second feature is malformed, and an empty one.\<close>

definition sample_feature :: "(string \<times> int json) list" where
  "sample_feature =
     [(''place_name'', JStr ''City Hall Park, New York''),
      (''center'', JArr [JInt (- 74), JInt 40])]"

definition sample_collection :: "(string \<times> int json) list" where
  "sample_collection =
     [(''type'', JStr ''FeatureCollection''), (''features'', JArr [JObj sample_feature, JNull])]"

definition sample_empty_collection :: "(string \<times> int json) list" where
  "sample_empty_collection = [(''type'', JStr ''FeatureCollection''), (''features'', JArr [])]"

text \<open>
  Parent classes for running the methods: a transport that answers every request with
  the sample response and leaves the adapter alone, a batching helper that runs the given
  method on the first \<open>max_batch_size\<close> items, and, for contrast, a transport that
  resets the batch size of the adapter.
\<close>

definition sample_tomtom ::
  "(int, unit, int, (int json, int) Location found list) tomtom_methods" where
  "sample_tomtom =
     \<lparr>call_geocoder = (\<lambda>c self. (callback c (JObj sample_batch), self)),
      apply_batchwise_geocode = (\<lambda>q f self. f (take (max_batch_size self) q) self),
      apply_batchwise_reverse = (\<lambda>q f self. f (take (max_batch_size self) q) self),
      super_geocode = (\<lambda>q eo tmo limit typeahead lang self. (Inr [], self)),
      super_reverse = (\<lambda>q eo tmo lang self. (Inr [], self))\<rparr>"


definition resetting_tomtom ::
  "(int, unit, int, (int json, int) Location found list) tomtom_methods" where
  "resetting_tomtom =
     sample_tomtom\<lparr>call_geocoder := (\<lambda>c self. (Inr [], self\<lparr>max_batch_size := 0\<rparr>))\<rparr>"


section \<open>Properties\<close>

subsection \<open>Exceptions as values\<close>

lemma ebind_Inr [simp]: "ebind (Inr x) k = k x"
  by (simp add: ebind_def)

lemma ebind_Inl [simp]: "ebind (Inl e) k = Inl e"
  by (simp add: ebind_def)

lemma ebind_eq_Inr:
  "ebind m k = Inr y \<longleftrightarrow> (\<exists>x. m = Inr x \<and> k x = Inr y)"
  by (cases m) simp_all

text \<open>The loop succeeds exactly when its body succeeds on every element, and then the
  output lists the bodies' results position by position.\<close>

lemma emap_eq_Inr:
  "emap f xs = Inr ys \<longleftrightarrow> list_all2 (\<lambda>x y. f x = Inr y) xs ys"
proof (induction xs arbitrary: ys)
  case Nil
  show ?case by auto
next
  case (Cons x xs)
  show ?case
  proof (cases "f x")
    case (Inl e)
    then show ?thesis by (auto simp: list_all2_Cons1)
  next
    case fx: (Inr y)
    show ?thesis
    proof (cases "emap f xs")
      case (Inl e)
      with Cons.IH fx show ?thesis by (auto simp: list_all2_Cons1)
    next
      case (Inr zs)
      with Cons.IH fx show ?thesis by (auto simp: list_all2_Cons1)
    qed
  qed
qed

lemma key_in_map_of: "k \<in> set (map fst kvs) \<Longrightarrow> \<exists>v. map_of kvs k = Some v"
  by (induction kvs) auto

subsection \<open>Vendor A: a top-level error\<close>

text \<open>
  Claim C1. Whenever the decoded batch response is a mapping that contains the key
  \<open>error\<close>, \<open>_parse_batch_response\<close> raises GeocoderServiceError, built from the value
  stored under that key. Nothing else of the response is looked at: the batch items may be
  anything, and the outcome is the same for forward and reverse parsing and for both
  values of \<open>exactly_one\<close>.
\<close>

theorem error_key_raises:
  assumes "''error'' \<in> set (map fst kvs)"
  shows "\<exists>e. map_of kvs ''error'' = Some e \<and>
           parse_batch_response F (JObj kvs) exactly_one is_reverse
             = Inl (GeocoderServiceError e)"
proof -
  from key_in_map_of [OF assms] obtain e where e: "map_of kvs ''error'' = Some e" ..
  with assms show ?thesis
    by (simp add: parse_batch_response_def)
qed

text \<open>The batch items of this response would raise a TypeError if the loop reached them.\<close>

theorem error_key_raises_witness:
  "parse_batch_response whole_floats
     (JObj [(''batchItems'', JArr [JInt 5, JObj [(''response'', JNull)]]),
            (''error'', JObj [(''code'', JStr ''400 BadRequest'')])]) True False
   = Inl (GeocoderServiceError (JObj [(''code'', JStr ''400 BadRequest'')]))
   \<and> parse_batch_response whole_floats
     (JObj [(''batchItems'', JArr [JInt 5, JObj [(''response'', JNull)]]),
            (''error'', JObj [(''code'', JStr ''400 BadRequest'')])]) False True
   = Inl (GeocoderServiceError (JObj [(''code'', JStr ''400 BadRequest'')]))"
  using error_key_raises [of "[(''batchItems'', JArr [JInt 5, JObj [(''response'', JNull)]]),
            (''error'', JObj [(''code'', JStr ''400 BadRequest'')])]" whole_floats True False]
    error_key_raises [of "[(''batchItems'', JArr [JInt 5, JObj [(''response'', JNull)]]),
            (''error'', JObj [(''code'', JStr ''400 BadRequest'')])]" whole_floats False True]
  by simp

subsection \<open>Evaluating the model\<close>

lemmas sample_defs = sample_result_def sample_result_str_def sample_empty_item_def
  sample_items_def sample_batch_def sample_feature_def sample_collection_def
  sample_empty_collection_def

lemmas azure_parse_defs = parse_batch_response_def parse_item_def parse_result_def
  extract_position_def

lemmas maptiler_parse_defs = MapTiler_parse_json_def MapTiler_parse_feature_def parse_feature_def

lemma whole_floats_simps [simp]:
  "float_of_int whole_floats = Some"
  "float_of_str whole_floats = int_of_str"
  "float_nonzero whole_floats = (\<lambda>x. x \<noteq> 0)"
  by (simp_all add: whole_floats_def)

lemma int_of_str_samples [simp]:
  "int_of_str ''48'' = Some 48"
  "int_of_str ''-121'' = Some (- 121)"
  "int_of_str ''40'' = Some 40"
  "int_of_str ''-74'' = Some (- 74)"
  by (simp_all add: int_of_str_def digit_of_def)

subsection \<open>Vendor A and Vendor B: one output entry per input entry\<close>

lemma parse_batch_response_no_error:
  assumes "''error'' \<notin> set (map fst kvs)"
    and "map_of kvs ''batchItems'' = Some (JArr items)
           \<or> (map_of kvs ''batchItems'' = None \<and> items = [])"
  shows "parse_batch_response F (JObj kvs) exactly_one is_reverse
           = emap (parse_item F (if is_reverse then ''addresses'' else ''results'') exactly_one) items"
  using assms by (auto simp: parse_batch_response_def)

text \<open>
  Claim C5. For a batch response without the key \<open>error\<close> whose \<open>batchItems\<close> is a list
  (or is absent, which reads as the empty list), \<open>_parse_batch_response\<close> returns a
  sequence exactly when the loop body succeeds on every item, and the sequence returned
  has one entry per item, the entry at each index being what the body computed for the
  item at that index. Likewise \<open>_parse_json\<close> on a list of feature collections returns
  a list with the result of \<open>_parse_feature\<close> for each collection, at the same index.
\<close>

theorem results_aligned_with_items:
  "(''error'' \<notin> set (map fst kvs) \<longrightarrow>
    (map_of kvs ''batchItems'' = Some (JArr items)
       \<or> (map_of kvs ''batchItems'' = None \<and> items = [])) \<longrightarrow>
    (parse_batch_response F (JObj kvs) exactly_one is_reverse = Inr locations)
      = (length locations = length items \<and>
         (\<forall>i < length items.
            parse_item F (if is_reverse then ''addresses'' else ''results'') exactly_one (items ! i)
              = Inr (locations ! i))))
   \<and> ((MapTiler_parse_json F (JArr collections) exactly_one = Inr r)
        = (\<exists>rs. r = Batch rs \<and> length rs = length collections \<and>
             (\<forall>i < length collections.
                MapTiler_parse_feature F (collections ! i) exactly_one = Inr (rs ! i))))"
proof (intro conjI impI)
  assume "''error'' \<notin> set (map fst kvs)"
    and "map_of kvs ''batchItems'' = Some (JArr items)
       \<or> (map_of kvs ''batchItems'' = None \<and> items = [])"
  then have "parse_batch_response F (JObj kvs) exactly_one is_reverse
           = emap (parse_item F (if is_reverse then ''addresses'' else ''results'') exactly_one) items"
    by (rule parse_batch_response_no_error)
  then show "(parse_batch_response F (JObj kvs) exactly_one is_reverse = Inr locations)
      = (length locations = length items \<and>
         (\<forall>i < length items.
            parse_item F (if is_reverse then ''addresses'' else ''results'') exactly_one (items ! i)
              = Inr (locations ! i)))"
    by (simp only: emap_eq_Inr list_all2_conv_all_nth) auto
next
  have "MapTiler_parse_json F (JArr collections) exactly_one
          = ebind (emap (\<lambda>feature. MapTiler_parse_feature F feature exactly_one) collections)
              (\<lambda>rs. Inr (Batch rs))"
    by (simp add: MapTiler_parse_json_def)
  then show "(MapTiler_parse_json F (JArr collections) exactly_one = Inr r)
        = (\<exists>rs. r = Batch rs \<and> length rs = length collections \<and>
             (\<forall>i < length collections.
                MapTiler_parse_feature F (collections ! i) exactly_one = Inr (rs ! i)))"
    by (simp only: ebind_eq_Inr emap_eq_Inr list_all2_conv_all_nth) auto
qed

theorem results_aligned_with_items_witness:
  "''error'' \<notin> set (map fst sample_batch)
   \<and> map_of sample_batch ''batchItems'' = Some (JArr sample_items)
   \<and> parse_batch_response whole_floats (JObj sample_batch) True False
       = Inr [ROne \<lparr>address = JStr ''1 Microsoft Way, Redmond'', point = (47, - 122),
                    raw = JObj sample_result\<rparr>, RNone]
   \<and> length sample_items = 2
   \<and> parse_item whole_floats ''results'' True (sample_items ! 1) = Inr RNone
   \<and> (\<exists>rs. MapTiler_parse_json whole_floats
               (JArr [JObj sample_collection, JObj sample_empty_collection]) True = Inr (Batch rs)
           \<and> length rs = 2
           \<and> MapTiler_parse_feature whole_floats (JObj sample_empty_collection) True = Inr (rs ! 1))"
proof -
  have h1: "''error'' \<notin> set (map fst sample_batch)"
    by (simp add: sample_defs)
  have h2: "map_of sample_batch ''batchItems'' = Some (JArr sample_items)"
    by (simp add: sample_defs)
  have p: "parse_batch_response whole_floats (JObj sample_batch) True False
       = Inr [ROne \<lparr>address = JStr ''1 Microsoft Way, Redmond'', point = (47, - 122),
                    raw = JObj sample_result\<rparr>, RNone]"
    by (simp add: sample_defs azure_parse_defs)
  have q: "MapTiler_parse_json whole_floats
             (JArr [JObj sample_collection, JObj sample_empty_collection]) True
           = Inr (Batch [ROne \<lparr>address = JStr ''City Hall Park, New York'',
                               point = (JInt 40, JInt (- 74)), raw = JObj sample_feature\<rparr>, RNone])"
    by (simp add: sample_defs maptiler_parse_defs)
  note t = results_aligned_with_items [where kvs = sample_batch and items = sample_items
      and F = whole_floats and exactly_one = True and is_reverse = False
      and locations = "[ROne \<lparr>address = JStr ''1 Microsoft Way, Redmond'', point = (47, - 122),
                    raw = JObj sample_result\<rparr>, RNone]"
      and collections = "[JObj sample_collection, JObj sample_empty_collection]"
      and r = "Batch [ROne \<lparr>address = JStr ''City Hall Park, New York'',
                               point = (JInt 40, JInt (- 74)), raw = JObj sample_feature\<rparr>, RNone]"]
  from t h1 h2 p have a: "length sample_items = 2
     \<and> parse_item whole_floats ''results'' True (sample_items ! 1) = Inr RNone"
    by (simp add: sample_items_def All_less_Suc)
  from t q have b: "\<exists>rs. Batch [ROne \<lparr>address = JStr ''City Hall Park, New York'',
                               point = (JInt 40, JInt (- 74)), raw = JObj sample_feature\<rparr>, RNone]
             = Batch rs \<and> length rs = 2
           \<and> MapTiler_parse_feature whole_floats (JObj sample_empty_collection) True = Inr (rs ! 1)"
    by (simp add: All_less_Suc)
  from h1 h2 p a b q show ?thesis
    by simp
qed

subsection \<open>Missing and empty result sets\<close>

lemma parse_item_empty:
  assumes "map_of ikvs ''response'' = Some (JObj rkvs)"
    and "case map_of rkvs key of None \<Rightarrow> True | Some v \<Rightarrow> \<not> py_truthy F v"
  shows "parse_item F key exactly_one (JObj ikvs) = Inr (if exactly_one then RNone else RMany [])"
proof (cases "map_of rkvs key")
  case None
  then have "key \<notin> set (map fst rkvs)"
    by (simp add: map_of_eq_None_iff)
  with assms(1) show ?thesis
    by (simp add: parse_item_def)
next
  case (Some v)
  then have "key \<in> set (map fst rkvs)"
    by (metis map_of_eq_None_iff option.distinct(1) set_map)
  with assms Some show ?thesis
    by (simp add: parse_item_def)
qed

text \<open>
  Claim C3 says that a missing or empty result set gives \<open>None\<close> in single-result mode
  and an empty sequence in multi-result mode, without an error, in both parsers. Vendor B
  does otherwise: an empty \<open>features\<close> array gives \<open>None\<close> in multi-result mode as
  well, and a collection without the key \<open>features\<close> raises KeyError.
\<close>

theorem empty_features_counterexample:
  "MapTiler_parse_feature whole_floats (JObj sample_empty_collection) False = Inr RNone
   \<and> MapTiler_parse_feature whole_floats (JObj sample_empty_collection) False \<noteq> Inr (RMany [])
   \<and> MapTiler_parse_feature whole_floats (JObj [(''type'', JStr ''FeatureCollection'')]) True
       = Inl KeyError"
  by (simp add: MapTiler_parse_feature_def sample_empty_collection_def)

text \<open>
  Claim C3, amended. Vendor A: for a batch item whose \<open>response\<close> is a mapping in which
  the result set (\<open>addresses\<close> for reverse, \<open>results\<close> for forward parsing) is missing
  or empty (falsy), the loop body raises nothing and gives \<open>None\<close> when \<open>exactly_one\<close> is
  set and the empty list otherwise, and that is the entry at the item's index in whatever
  \<open>_parse_batch_response\<close> returns. Vendor B: for a feature collection whose \<open>features\<close>
  entry is present and empty (falsy), \<open>_parse_feature\<close> raises nothing and gives \<open>None\<close>
  in both modes, and so does \<open>_parse_json\<close> on that collection.
\<close>

theorem empty_result_sets:
  "(map_of ikvs ''response'' = Some (JObj rkvs) \<longrightarrow>
    (case map_of rkvs (if is_reverse then ''addresses'' else ''results'') of
       None \<Rightarrow> True | Some v \<Rightarrow> \<not> py_truthy F v) \<longrightarrow>
      parse_item F (if is_reverse then ''addresses'' else ''results'') exactly_one (JObj ikvs)
        = Inr (if exactly_one then RNone else RMany [])
      \<and> (\<forall>kvs items locations i.
           ''error'' \<notin> set (map fst kvs) \<longrightarrow>
           map_of kvs ''batchItems'' = Some (JArr items) \<longrightarrow>
           i < length items \<longrightarrow> items ! i = JObj ikvs \<longrightarrow>
           parse_batch_response F (JObj kvs) exactly_one is_reverse = Inr locations \<longrightarrow>
           locations ! i = (if exactly_one then RNone else RMany [])))
   \<and> (map_of ckvs ''features'' = Some fs \<longrightarrow> \<not> py_truthy F fs \<longrightarrow>
        MapTiler_parse_feature F (JObj ckvs) exactly_one = Inr RNone
        \<and> MapTiler_parse_json F (JObj ckvs) exactly_one = Inr (Single RNone))"
proof (intro conjI impI allI)
  assume r: "map_of ikvs ''response'' = Some (JObj rkvs)"
    and e: "case map_of rkvs (if is_reverse then ''addresses'' else ''results'') of
       None \<Rightarrow> True | Some v \<Rightarrow> \<not> py_truthy F v"
  then show item: "parse_item F (if is_reverse then ''addresses'' else ''results'') exactly_one (JObj ikvs)
        = Inr (if exactly_one then RNone else RMany [])"
    by (rule parse_item_empty)
  fix kvs items locations i
  assume "''error'' \<notin> set (map fst kvs)"
    and "map_of kvs ''batchItems'' = Some (JArr items)"
    and i: "i < length items" "items ! i = JObj ikvs"
    and "parse_batch_response F (JObj kvs) exactly_one is_reverse = Inr locations"
  then have "emap (parse_item F (if is_reverse then ''addresses'' else ''results'') exactly_one) items
               = Inr locations"
    by (simp add: parse_batch_response_def)
  then have "list_all2 (\<lambda>x y. parse_item F (if is_reverse then ''addresses'' else ''results'')
                exactly_one x = Inr y) items locations"
    by (simp only: emap_eq_Inr)
  with i have "parse_item F (if is_reverse then ''addresses'' else ''results'') exactly_one (JObj ikvs)
                = Inr (locations ! i)"
    by (auto simp: list_all2_conv_all_nth)
  with item show "locations ! i = (if exactly_one then RNone else RMany [])"
    by simp
next
  assume "map_of ckvs ''features'' = Some fs" and "\<not> py_truthy F fs"
  then show "MapTiler_parse_feature F (JObj ckvs) exactly_one = Inr RNone"
    by (simp add: MapTiler_parse_feature_def)
next
  assume "map_of ckvs ''features'' = Some fs" and "\<not> py_truthy F fs"
  then show "MapTiler_parse_json F (JObj ckvs) exactly_one = Inr (Single RNone)"
    by (simp add: MapTiler_parse_json_def MapTiler_parse_feature_def)
qed

theorem empty_result_sets_witness:
  "map_of sample_empty_item ''response'' = Some (JObj [(''results'', JArr [])])
   \<and> map_of [(''results'', JArr [])] ''results'' = Some (JArr [])
   \<and> \<not> py_truthy whole_floats (JArr [])
   \<and> parse_item whole_floats ''results'' False (JObj sample_empty_item) = Inr (RMany [])
   \<and> (\<exists>locations.
         parse_batch_response whole_floats (JObj sample_batch) False False = Inr locations
           \<and> locations ! 1 = RMany [])
   \<and> map_of sample_empty_collection ''features'' = Some (JArr [])
   \<and> MapTiler_parse_feature whole_floats (JObj sample_empty_collection) False = Inr RNone"
proof -
  have h1: "map_of sample_empty_item ''response'' = Some (JObj [(''results'', JArr [])])"
    by (simp add: sample_defs)
  have h2: "map_of [(''results'', JArr [])] ''results'' = Some (JArr [])"
    by simp
  have h3: "\<not> py_truthy whole_floats (JArr [])"
    by simp
  have h4: "map_of sample_empty_collection ''features'' = Some (JArr [])"
    by (simp add: sample_defs)
  have h5: "''error'' \<notin> set (map fst sample_batch)
            \<and> map_of sample_batch ''batchItems'' = Some (JArr sample_items)
            \<and> 1 < length sample_items \<and> sample_items ! 1 = JObj sample_empty_item"
    by (simp add: sample_defs)
  note t = empty_result_sets [where ikvs = sample_empty_item and rkvs = "[(''results'', JArr [])]"
      and is_reverse = False and exactly_one = False and F = whole_floats
      and ckvs = sample_empty_collection and fs = "JArr []"]
  from t h1 h2 h3 have a: "parse_item whole_floats ''results'' False (JObj sample_empty_item) = Inr (RMany [])
     \<and> (\<forall>kvs items locations i.
           ''error'' \<notin> set (map fst kvs) \<longrightarrow>
           map_of kvs ''batchItems'' = Some (JArr items) \<longrightarrow>
           i < length items \<longrightarrow> items ! i = JObj sample_empty_item \<longrightarrow>
           parse_batch_response whole_floats (JObj kvs) False False = Inr locations \<longrightarrow>
           locations ! i = RMany [])"
    by simp
  from a h5 have "\<forall>locations.
         parse_batch_response whole_floats (JObj sample_batch) False False = Inr locations
           \<longrightarrow> locations ! 1 = RMany []"
    by blast
  moreover have "\<exists>locations.
         parse_batch_response whole_floats (JObj sample_batch) False False = Inr locations"
    by (simp add: sample_defs azure_parse_defs)
  ultimately have b: "\<exists>locations.
         parse_batch_response whole_floats (JObj sample_batch) False False = Inr locations
           \<and> locations ! 1 = RMany []"
    by blast
  from t h4 h3 have c: "MapTiler_parse_feature whole_floats (JObj sample_empty_collection) False = Inr RNone"
    by simp
  from h1 h2 h3 h4 a b c show ?thesis
    by blast
qed

subsection \<open>Vendor A: coordinates of a result\<close>

text \<open>
  Claim C9. Let the \<open>position\<close> of a result object be a mapping with the keys \<open>lat\<close>
  and \<open>lon\<close> whose values convert to floats \<open>x\<close> and \<open>y\<close>, or a string whose first
  two comma-separated fields convert to \<open>x\<close> and \<open>y\<close>. Then the extraction of the
  coordinates raises nothing and gives \<open>(x, y)\<close>, latitude first; every Location built from
  the result has these coordinates; and one is built whenever the result's \<open>address\<close> is
  absent or a mapping.
\<close>

theorem position_extraction_total:
  assumes pos: "map_of rkvs ''position'' = Some position"
    and ok: "(\<exists>pkvs a b. position = JObj pkvs \<and> map_of pkvs ''lat'' = Some a \<and>
                  map_of pkvs ''lon'' = Some b \<and> py_float F a = Inr x \<and> py_float F b = Inr y)
           \<or> (\<exists>s f0 f1 rest. position = JStr s \<and> split_on CHR '','' s = f0 # f1 # rest \<and>
                  float_of_str F f0 = Some x \<and> float_of_str F f1 = Some y)"
  shows "extract_position F position = Inr (x, y)
       \<and> (\<forall>loc. parse_result F (JObj rkvs) = Inr loc \<longrightarrow> point loc = (x, y))
       \<and> (map_of rkvs ''address'' = None \<or> (\<exists>akvs. map_of rkvs ''address'' = Some (JObj akvs))
            \<longrightarrow> (\<exists>name. parse_result F (JObj rkvs)
                           = Inr \<lparr>address = name, point = (x, y), raw = JObj rkvs\<rparr>))"
proof -
  from ok have ex: "extract_position F position = Inr (x, y)"
    by (auto simp: extract_position_def)
  have pt: "point loc = (x, y)" if "parse_result F (JObj rkvs) = Inr loc" for loc
    using that pos ex by (auto simp: parse_result_def ebind_eq_Inr)
  have tot: "\<exists>name. parse_result F (JObj rkvs) = Inr \<lparr>address = name, point = (x, y), raw = JObj rkvs\<rparr>"
    if "map_of rkvs ''address'' = None \<or> (\<exists>akvs. map_of rkvs ''address'' = Some (JObj akvs))"
    using that pos ex by (auto simp: parse_result_def)
  from ex pt tot show ?thesis by blast
qed

text \<open>A position string with a third field, and a structured position.\<close>

theorem position_extraction_total_witness:
  "map_of [(''position'', JStr ''48,-121,7'')] ''position'' = Some (JStr ''48,-121,7'')
   \<and> split_on CHR '','' ''48,-121,7'' = [''48'', ''-121'', ''7'']
   \<and> float_of_str whole_floats ''48'' = Some 48
   \<and> float_of_str whole_floats ''-121'' = Some (- 121)
   \<and> extract_position whole_floats (JStr ''48,-121,7'') = Inr (48, - 121)
   \<and> parse_result whole_floats (JObj [(''position'', JStr ''48,-121,7'')])
       = Inr \<lparr>address = JNull, point = (48, - 121), raw = JObj [(''position'', JStr ''48,-121,7'')]\<rparr>
   \<and> extract_position whole_floats (JObj [(''lat'', JInt 47), (''lon'', JStr ''-122'')])
       = Inr (47, - 122)"
proof -
  have h1: "map_of [(''position'', JStr ''48,-121,7'')] ''position'' = Some (JStr ''48,-121,7'')"
    by simp
  have h2: "split_on CHR '','' ''48,-121,7'' = [''48'', ''-121'', ''7'']"
    by simp
  have h3: "float_of_str whole_floats ''48'' = Some 48"
    "float_of_str whole_floats ''-121'' = Some (- 121)"
    by simp_all
  have h4: "map_of [(''position'', JObj [(''lat'', JInt 47), (''lon'', JStr ''-122'')])] ''position''
              = Some (JObj [(''lat'', JInt 47), (''lon'', JStr ''-122'')])"
    by simp
  have h5: "py_float whole_floats (JInt 47) = Inr 47"
    "py_float whole_floats (JStr ''-122'') = Inr (- 122)"
    by (simp_all add: int_of_str_def digit_of_def)
  have a: "extract_position whole_floats (JStr ''48,-121,7'') = Inr (48, - 121)
       \<and> (\<exists>name. parse_result whole_floats (JObj [(''position'', JStr ''48,-121,7'')])
             = Inr \<lparr>address = name, point = (48, - 121),
                    raw = JObj [(''position'', JStr ''48,-121,7'')]\<rparr>)"
    using position_extraction_total [where rkvs = "[(''position'', JStr ''48,-121,7'')]"
        and position = "JStr ''48,-121,7''" and F = whole_floats and x = 48 and y = "- 121"]
      h1 h2 h3
    by simp
  have b: "extract_position whole_floats (JObj [(''lat'', JInt 47), (''lon'', JStr ''-122'')])
       = Inr (47, - 122)"
    using position_extraction_total
        [where rkvs = "[(''position'', JObj [(''lat'', JInt 47), (''lon'', JStr ''-122'')])]"
        and position = "JObj [(''lat'', JInt 47), (''lon'', JStr ''-122'')]"
        and F = whole_floats and x = 47 and y = "- 122"]
      h4 h5
    by simp
  have c: "parse_result whole_floats (JObj [(''position'', JStr ''48,-121,7'')])
       = Inr \<lparr>address = JNull, point = (48, - 121), raw = JObj [(''position'', JStr ''48,-121,7'')]\<rparr>"
    by (simp add: parse_result_def extract_position_def)
  from h1 h2 h3 a b c show ?thesis
    by simp
qed

subsection \<open>Vendor B: the axis order of a feature\<close>

lemma parse_feature_ok:
  assumes "map_of fkvs ''place_name'' = Some name"
    and "map_of fkvs ''center'' = Some (JArr (lon # lat # rest))"
  shows "parse_feature (JObj fkvs) = Inr \<lparr>address = name, point = (lat, lon), raw = JObj fkvs\<rparr>"
  using assms by (simp add: parse_feature_def)

text \<open>
  Claim C2. For a feature with a \<open>place_name\<close> and a \<open>center\<close> array that starts with
  the longitude and the latitude, the Location built has the place name as its display
  name and the pair (latitude, longitude), that is (center[1], center[0]), as its point.
  With \<open>exactly_one\<close> set, \<open>_parse_feature\<close> returns the Location of the first feature
  of the collection whatever the other features are; without it, every feature is parsed.
\<close>

theorem feature_axis_order:
  assumes "map_of fkvs ''place_name'' = Some name"
    and "map_of fkvs ''center'' = Some (JArr (lon # lat # rest))"
  shows "parse_feature (JObj fkvs) = Inr \<lparr>address = name, point = (lat, lon), raw = JObj fkvs\<rparr>
       \<and> (map_of ckvs ''features'' = Some (JArr (JObj fkvs # others)) \<longrightarrow>
            MapTiler_parse_feature F (JObj ckvs) True
              = Inr (ROne \<lparr>address = name, point = (lat, lon), raw = JObj fkvs\<rparr>)
          \<and> MapTiler_parse_feature F (JObj ckvs) False
              = ebind (emap parse_feature others) (\<lambda>ls.
                  Inr (RMany (\<lparr>address = name, point = (lat, lon), raw = JObj fkvs\<rparr> # ls))))"
proof -
  have pf: "parse_feature (JObj fkvs) = Inr \<lparr>address = name, point = (lat, lon), raw = JObj fkvs\<rparr>"
    using assms by (rule parse_feature_ok)
  have "MapTiler_parse_feature F (JObj ckvs) True
              = Inr (ROne \<lparr>address = name, point = (lat, lon), raw = JObj fkvs\<rparr>)"
    if "map_of ckvs ''features'' = Some (JArr (JObj fkvs # others))"
    using that pf by (simp add: MapTiler_parse_feature_def)
  moreover have "MapTiler_parse_feature F (JObj ckvs) False
              = ebind (emap parse_feature others) (\<lambda>ls.
                  Inr (RMany (\<lparr>address = name, point = (lat, lon), raw = JObj fkvs\<rparr> # ls)))"
    if "map_of ckvs ''features'' = Some (JArr (JObj fkvs # others))"
    using that pf by (simp add: MapTiler_parse_feature_def ebind_def split: sum.splits)
  ultimately show ?thesis using pf by simp
qed

text \<open>The second feature of the sample collection is \<open>null\<close>: it is never looked at when
  \<open>exactly_one\<close> is set, and raises a TypeError otherwise.\<close>

theorem feature_axis_order_witness:
  "map_of sample_feature ''place_name'' = Some (JStr ''City Hall Park, New York'')
   \<and> map_of sample_feature ''center'' = Some (JArr [JInt (- 74), JInt 40])
   \<and> map_of sample_collection ''features'' = Some (JArr [JObj sample_feature, JNull])
   \<and> MapTiler_parse_feature whole_floats (JObj sample_collection) True
       = Inr (ROne \<lparr>address = JStr ''City Hall Park, New York'',
                    point = (JInt 40, JInt (- 74)), raw = JObj sample_feature\<rparr>)
   \<and> MapTiler_parse_feature whole_floats (JObj sample_collection) False = Inl TypeError"
proof -
  have h1: "map_of sample_feature ''place_name'' = Some (JStr ''City Hall Park, New York'')"
    by (simp add: sample_defs)
  have h2: "map_of sample_feature ''center'' = Some (JArr [JInt (- 74), JInt 40])"
    by (simp add: sample_defs)
  have h3: "map_of sample_collection ''features'' = Some (JArr [JObj sample_feature, JNull])"
    by (simp add: sample_defs)
  have e: "emap parse_feature [JNull :: int json] = Inl TypeError"
    by (simp add: parse_feature_def)
  from feature_axis_order [OF h1 h2, where ckvs = sample_collection and others = "[JNull]"
      and F = whole_floats] h3 e
  have "MapTiler_parse_feature whole_floats (JObj sample_collection) True
       = Inr (ROne \<lparr>address = JStr ''City Hall Park, New York'',
                    point = (JInt 40, JInt (- 74)), raw = JObj sample_feature\<rparr>)
   \<and> MapTiler_parse_feature whole_floats (JObj sample_collection) False = Inl TypeError"
    by simp
  with h1 h2 h3 show ?thesis
    by simp
qed

subsection \<open>Vendor A: the body of a batch request\<close>






lemmas quote_defs = quote_def py_quote_def quote_plus_def quote_byte_def always_safe_def
  hex_digit_def


subsection \<open>Vendor B: the request URL\<close>

lemma dict_set_fresh: "k \<notin> set (map fst ps) \<Longrightarrow> dict_set k v ps = ps @ [(k, v)]"
  by (induction ps) auto

lemma py_percent_plain:
  "CHR ''%'' \<notin> set pre \<Longrightarrow>
     py_percent (pre @ template) m
       = (case py_percent template m of Inl e \<Rightarrow> Inl e | Inr out \<Rightarrow> Inr (pre @ out))"
  by (induction pre) (auto split: sum.splits)

lemma py_percent_api_path:
  "py_percent api_path [(''query'', q)] = Inr (''/geocoding/'' @ q @ ''.json'')"
  by (simp add: api_path_def)

lemma set_strip_slash: "set (strip_slash s) \<subseteq> set s"
proof
  fix x
  assume "x \<in> set (strip_slash s)"
  then have "x \<in> set (dropWhile (\<lambda>c. c = CHR ''/'') (rev (dropWhile (\<lambda>c. c = CHR ''/'') s)))"
    by (simp add: strip_slash_def)
  then have "x \<in> set (rev (dropWhile (\<lambda>c. c = CHR ''/'') s))"
    by (rule set_dropWhileD)
  then have "x \<in> set (dropWhile (\<lambda>c. c = CHR ''/'') s)"
    by simp
  then show "x \<in> set s"
    by (rule set_dropWhileD)
qed

text \<open>The path template of an adapter whose scheme and domain hold no \<open>%\<close>.\<close>

lemma api_percent:
  assumes "CHR ''%'' \<notin> set sch" and "CHR ''%'' \<notin> set dmn"
  shows "py_percent (api (MapTiler_init key sch dmn)) [(''query'', q)]
           = Inr (sch @ ''://'' @ strip_slash dmn @ ''/geocoding/'' @ q @ ''.json'')"
proof -
  from assms(2) set_strip_slash [of dmn] have "CHR ''%'' \<notin> set (strip_slash dmn)"
    by auto
  with assms(1) have "CHR ''%'' \<notin> set (sch @ ''://'' @ strip_slash dmn)"
    by simp
  from py_percent_plain [OF this, of api_path "[(''query'', q)]"]
  show ?thesis
    by (simp add: MapTiler_init_def py_percent_api_path)
qed

lemma set_language_param:
  "''language'' \<notin> set (map fst ps) \<Longrightarrow> set_language language ps = ps @ language_param language"
  by (auto simp: set_language_def language_param_def dict_set_fresh
           split: option.splits query.splits list.splits)

lemma language_param_cases:
  "language_param language = [] \<or> (\<exists>v. language_param language = [(''language'', v)])"
  by (simp add: language_param_def split: option.splits query.splits list.splits)

lemma geocode_params_stage:
  "ebind (case bbox of
            Some (b # bs) \<Rightarrow>
              ebind (format_bounding_box B (b # bs) ''%(lon1)s,%(lat1)s,%(lon2)s,%(lat2)s'')
                (\<lambda>s. Inr (dict_set ''bbox'' s [(''key'', k)]))
          | _ \<Rightarrow> Inr [(''key'', k)]) (\<lambda>params.
   ebind (case proximity of
            None \<Rightarrow> Inr (set_language language params)
          | Some x \<Rightarrow>
              if truthy_point x then
                ebind (to_Point B x) (\<lambda>p.
                  Inr (dict_set ''proximity''
                         (str_of_float B (longitude p) @ '','' @ str_of_float B (latitude p))
                         (set_language language params)))
              else Inr (set_language language params)) K)
   = ebind (bbox_param B bbox) (\<lambda>bp.
     ebind (proximity_param B proximity) (\<lambda>pp.
       K ([(''key'', k)] @ bp @ language_param language @ pp)))"
proof -
  have fresh: "dict_set ''proximity'' v (set_language language ([(''key'', k)] @ bp))
                 = [(''key'', k)] @ bp @ language_param language @ [(''proximity'', v)]"
    if "bp = [] \<or> (\<exists>s. bp = [(''bbox'', s)])" for bp v
    using that language_param_cases [of language]
    by (auto simp: set_language_param dict_set_fresh)
  have lang: "set_language language ([(''key'', k)] @ bp)
                 = [(''key'', k)] @ bp @ language_param language"
    if "bp = [] \<or> (\<exists>s. bp = [(''bbox'', s)])" for bp
    using that by (auto simp: set_language_param)
  show ?thesis
  proof (cases "bbox_param B bbox")
    case (Inl e)
    then show ?thesis
      by (auto simp: bbox_param_def split: option.splits list.splits sum.splits)
  next
    case (Inr bp)
    then have shape: "bp = [] \<or> (\<exists>s. bp = [(''bbox'', s)])"
      by (auto simp: bbox_param_def split: option.splits list.splits sum.splits)
    from Inr have first: "(case bbox of
            Some (b # bs) \<Rightarrow>
              ebind (format_bounding_box B (b # bs) ''%(lon1)s,%(lat1)s,%(lon2)s,%(lat2)s'')
                (\<lambda>s. Inr (dict_set ''bbox'' s [(''key'', k)]))
          | _ \<Rightarrow> Inr [(''key'', k)]) = Inr ([(''key'', k)] @ bp)"
      by (auto simp: bbox_param_def split: option.splits list.splits sum.splits)
    show ?thesis
    proof (cases "proximity_param B proximity")
      case (Inl e)
      with Inr first show ?thesis
        by (auto simp: proximity_param_def split: option.splits if_splits sum.splits)
    next
      case pp: (Inr pp)
      with Inr first fresh [OF shape] lang [OF shape] show ?thesis
        by (auto simp: proximity_param_def split: option.splits if_splits sum.splits)
    qed
  qed
qed

text \<open>
  Claim C6. For a scalar address and an adapter whose scheme and domain hold no \<open>%\<close>,
  \<open>_geocode\<close> requests the URL made of the path template \<open>/geocoding/{query}.json\<close>
  with the percent-encoded address in place of the query, a \<open>?\<close>, and the encoded
  parameters: always \<open>key\<close>, then \<open>bbox\<close> (the base's rendering of the box for the
  template \<open>lon1,lat1,lon2,lat2\<close>) only when a box is given, \<open>language\<close> (the
  comma-joined list) only when a language is given, and \<open>proximity\<close> (\<open>lon,lat\<close>) only
  when a point is given. An exception of the base's helpers is passed on.
\<close>

theorem geocode_url:
  assumes "CHR ''%'' \<notin> set sch" and "CHR ''%'' \<notin> set dmn"
  shows "MapTiler_geocode B F (MapTiler_init key sch dmn) (Scalar addr) tmo proximity language
           bbox exactly_one
     = ebind (bbox_param B bbox) (\<lambda>bp.
       ebind (proximity_param B proximity) (\<lambda>pp.
         Inr \<lparr>url = sch @ ''://'' @ strip_slash dmn @ ''/geocoding/'' @ quote addr @ ''.json''
                   @ ''?'' @ urlencode ([(''key'', key)] @ bp @ language_param language @ pp),
              callback = (\<lambda>json. MapTiler_parse_json F json exactly_one),
              timeout = tmo, headers = None, data = None\<rparr>))"
proof -
  have k: "api_key (MapTiler_init key sch dmn) = key"
    by (simp add: MapTiler_init_def)
  have "MapTiler_geocode B F (MapTiler_init key sch dmn) (Scalar addr) tmo proximity language
           bbox exactly_one
     = ebind (case bbox of
            Some (b # bs) \<Rightarrow>
              ebind (format_bounding_box B (b # bs) ''%(lon1)s,%(lat1)s,%(lon2)s,%(lat2)s'')
                (\<lambda>s. Inr (dict_set ''bbox'' s [(''key'', key)]))
          | _ \<Rightarrow> Inr [(''key'', key)]) (\<lambda>params.
       ebind (case proximity of
            None \<Rightarrow> Inr (set_language language params)
          | Some x \<Rightarrow>
              if truthy_point x then
                ebind (to_Point B x) (\<lambda>p.
                  Inr (dict_set ''proximity''
                         (str_of_float B (longitude p) @ '','' @ str_of_float B (latitude p))
                         (set_language language params)))
              else Inr (set_language language params)) (\<lambda>params.
         Inr \<lparr>url = sch @ ''://'' @ strip_slash dmn @ ''/geocoding/'' @ quote addr @ ''.json''
                   @ ''?'' @ urlencode params,
              callback = (\<lambda>json. MapTiler_parse_json F json exactly_one),
              timeout = tmo, headers = None, data = None\<rparr>))"
    by (simp add: MapTiler_geocode_def Let_def k api_percent [OF assms])
  also have "\<dots> = ebind (bbox_param B bbox) (\<lambda>bp.
       ebind (proximity_param B proximity) (\<lambda>pp.
         Inr \<lparr>url = sch @ ''://'' @ strip_slash dmn @ ''/geocoding/'' @ quote addr @ ''.json''
                   @ ''?'' @ urlencode ([(''key'', key)] @ bp @ language_param language @ pp),
              callback = (\<lambda>json. MapTiler_parse_json F json exactly_one),
              timeout = tmo, headers = None, data = None\<rparr>))"
    by (rule geocode_params_stage)
  finally show ?thesis .
qed

lemmas spec_base_defs = spec_base_def spec_format_bounding_box_def spec_coerce_point_to_string_def

theorem geocode_url_witness:
  "CHR ''%'' \<notin> set ''https'' \<and> CHR ''%'' \<notin> set ''api.maptiler.com/''
   \<and> (\<exists>call. MapTiler_geocode (spec_base whole_floats str_int) whole_floats
                 (MapTiler_init ''KEY'' ''https'' ''api.maptiler.com/'')
                 (Scalar ''City Hall, New York'') () (Some (PtStr ''40,-74''))
                 (Some (Listed [''de'', ''en''])) (Some [PtSeq [40, - 75], PtSeq [41, - 73]]) True
               = Inr call
          \<and> url call = ''https://api.maptiler.com/geocoding/City%20Hall%2C%20New%20York.json?key=KEY&bbox=-75%2C40%2C-73%2C41&language=de%2Cen&proximity=-74%2C40'')
   \<and> (\<exists>call. MapTiler_geocode (spec_base whole_floats str_int) whole_floats
                 (MapTiler_init ''KEY'' ''https'' ''api.maptiler.com/'')
                 (Scalar ''Berlin'') () None None None True
               = Inr call
          \<and> url call = ''https://api.maptiler.com/geocoding/Berlin.json?key=KEY'')"
proof -
  have h1: "CHR ''%'' \<notin> set ''https''"
    by simp
  have h2: "CHR ''%'' \<notin> set ''api.maptiler.com/''"
    by simp
  have s: "str_int 40 = ''40''" "str_int (- 75) = ''-75''" "str_int 41 = ''41''"
    "str_int (- 73) = ''-73''" "str_int (- 74) = ''-74''"
    by (simp_all add: str_int_def)
  have b: "bbox_param (spec_base whole_floats str_int) (Some [PtSeq [40, - 75], PtSeq [41, - 73]])
             = Inr [(''bbox'', ''-75,40,-73,41'')]"
    by (simp add: bbox_param_def spec_base_defs s)
  have p: "proximity_param (spec_base whole_floats str_int) (Some (PtStr ''40,-74''))
             = Inr [(''proximity'', ''-74,40'')]"
    by (simp add: proximity_param_def spec_base_defs s)
  have l: "language_param (Some (Listed [''de'', ''en''])) = [(''language'', ''de,en'')]"
    by (simp add: language_param_def)
  have n: "bbox_param (spec_base whole_floats str_int) None = Inr []"
    "proximity_param (spec_base whole_floats str_int) None = Inr []"
    "language_param None = []"
    by (simp_all add: bbox_param_def proximity_param_def language_param_def)
  have q: "quote ''City Hall, New York'' = ''City%20Hall%2C%20New%20York''"
    "quote ''Berlin'' = ''Berlin''"
    by (simp_all add: quote_defs)
  have u: "urlencode [(''key'', ''KEY''), (''bbox'', ''-75,40,-73,41''), (''language'', ''de,en''),
                      (''proximity'', ''-74,40'')]
             = ''key=KEY&bbox=-75%2C40%2C-73%2C41&language=de%2Cen&proximity=-74%2C40''"
    "urlencode [(''key'', ''KEY'')] = ''key=KEY''"
    by (simp_all add: urlencode_def quote_defs)
  have d: "strip_slash ''api.maptiler.com/'' = ''api.maptiler.com''"
    by (simp add: strip_slash_def)
  from geocode_url [OF h1 h2, where B = "spec_base whole_floats str_int" and F = whole_floats
      and key = "''KEY''" and addr = "''City Hall, New York''" and tmo = "()"
      and proximity = "Some (PtStr ''40,-74'')" and language = "Some (Listed [''de'', ''en''])"
      and bbox = "Some [PtSeq [40, - 75], PtSeq [41, - 73]]" and exactly_one = True]
  have a1: "\<exists>call. MapTiler_geocode (spec_base whole_floats str_int) whole_floats
                 (MapTiler_init ''KEY'' ''https'' ''api.maptiler.com/'')
                 (Scalar ''City Hall, New York'') () (Some (PtStr ''40,-74''))
                 (Some (Listed [''de'', ''en''])) (Some [PtSeq [40, - 75], PtSeq [41, - 73]]) True
               = Inr call
          \<and> url call = ''https://api.maptiler.com/geocoding/City%20Hall%2C%20New%20York.json?key=KEY&bbox=-75%2C40%2C-73%2C41&language=de%2Cen&proximity=-74%2C40''"
    by (simp add: b p l q u d)
  from geocode_url [OF h1 h2, where B = "spec_base whole_floats str_int" and F = whole_floats
      and key = "''KEY''" and addr = "''Berlin''" and tmo = "()"
      and proximity = None and language = None and bbox = None and exactly_one = True]
  have a2: "\<exists>call. MapTiler_geocode (spec_base whole_floats str_int) whole_floats
                 (MapTiler_init ''KEY'' ''https'' ''api.maptiler.com/'')
                 (Scalar ''Berlin'') () None None None True
               = Inr call
          \<and> url call = ''https://api.maptiler.com/geocoding/Berlin.json?key=KEY''"
    by (simp add: n q u d)
  from h1 h2 a1 a2 show ?thesis
    by blast
qed

text \<open>
  Claim C7. For a scalar coordinate query and an adapter whose scheme and domain hold no
  \<open>%\<close>, \<open>_reverse\<close> has the base coerce the query to a string with the template
  \<open>lon,lat\<close>, percent-encodes that string into the path \<open>/geocoding/{query}.json\<close>, and
  adds to \<open>key\<close> the comma-joined \<open>language\<close> when one is given; an exception of the
  coercion is passed on. With the base's helper as the specification describes it, the
  string for a point is its longitude, a comma and its latitude.
\<close>

theorem reverse_url:
  assumes "CHR ''%'' \<notin> set sch" and "CHR ''%'' \<notin> set dmn"
  shows "MapTiler_reverse B F (MapTiler_init key sch dmn) (Scalar x) tmo language exactly_one
     = ebind (coerce_point_to_string B x ''%(lon)s,%(lat)s'') (\<lambda>s.
         Inr \<lparr>url = sch @ ''://'' @ strip_slash dmn @ ''/geocoding/'' @ quote s @ ''.json''
                   @ ''?'' @ urlencode ([(''key'', key)] @ language_param language),
              callback = (\<lambda>json. MapTiler_parse_json F json exactly_one),
              timeout = tmo, headers = None, data = None\<rparr>)
     \<and> (spec_Point F x = Inr p \<longrightarrow>
          coerce_point_to_string (spec_base F S) x ''%(lon)s,%(lat)s''
            = Inr (S (longitude p) @ '','' @ S (latitude p)))"
proof
  have k: "api_key (MapTiler_init key sch dmn) = key"
    by (simp add: MapTiler_init_def)
  have "set_language language [(''key'', key)] = [(''key'', key)] @ language_param language"
    by (rule set_language_param) simp
  then show "MapTiler_reverse B F (MapTiler_init key sch dmn) (Scalar x) tmo language exactly_one
     = ebind (coerce_point_to_string B x ''%(lon)s,%(lat)s'') (\<lambda>s.
         Inr \<lparr>url = sch @ ''://'' @ strip_slash dmn @ ''/geocoding/'' @ quote s @ ''.json''
                   @ ''?'' @ urlencode ([(''key'', key)] @ language_param language),
              callback = (\<lambda>json. MapTiler_parse_json F json exactly_one),
              timeout = tmo, headers = None, data = None\<rparr>)"
    by (cases "coerce_point_to_string B x ''%(lon)s,%(lat)s''")
       (simp_all add: MapTiler_reverse_def Let_def k api_percent [OF assms])
next
  show "spec_Point F x = Inr p \<longrightarrow>
          coerce_point_to_string (spec_base F S) x ''%(lon)s,%(lat)s''
            = Inr (S (longitude p) @ '','' @ S (latitude p))"
    by (simp add: spec_base_defs)
qed

theorem reverse_url_witness:
  "CHR ''%'' \<notin> set ''https'' \<and> CHR ''%'' \<notin> set ''api.maptiler.com''
   \<and> spec_Point whole_floats (PtSeq [40, - 74]) = Inr \<lparr>latitude = 40, longitude = - 74\<rparr>
   \<and> coerce_point_to_string (spec_base whole_floats str_int) (PtSeq [40, - 74]) ''%(lon)s,%(lat)s''
       = Inr ''-74,40''
   \<and> (\<exists>call. MapTiler_reverse (spec_base whole_floats str_int) whole_floats
                 (MapTiler_init ''KEY'' ''https'' ''api.maptiler.com'')
                 (Scalar (PtSeq [40, - 74])) () (Some (Scalar ''en'')) True
               = Inr call
          \<and> url call = ''https://api.maptiler.com/geocoding/-74%2C40.json?key=KEY&language=en'')"
proof -
  have h1: "CHR ''%'' \<notin> set ''https''"
    by simp
  have h2: "CHR ''%'' \<notin> set ''api.maptiler.com''"
    by simp
  have h3: "spec_Point whole_floats (PtSeq [40, - 74]) = Inr \<lparr>latitude = 40, longitude = - 74\<rparr>"
    by simp
  have s: "str_int 40 = ''40''" "str_int (- 74) = ''-74''"
    by (simp_all add: str_int_def)
  note t = reverse_url [OF h1 h2, where B = "spec_base whole_floats str_int" and F = whole_floats
      and key = "''KEY''" and x = "PtSeq [40, - 74]" and tmo = "()"
      and language = "Some (Scalar ''en'')" and exactly_one = True and S = str_int
      and p = "\<lparr>latitude = 40, longitude = - 74\<rparr>"]
  from t h3 s have c: "coerce_point_to_string (spec_base whole_floats str_int) (PtSeq [40, - 74])
        ''%(lon)s,%(lat)s'' = Inr ''-74,40''"
    by simp
  have q: "quote ''-74,40'' = ''-74%2C40''"
    by (simp add: quote_defs)
  have u: "urlencode [(''key'', ''KEY''), (''language'', ''en'')] = ''key=KEY&language=en''"
    by (simp add: urlencode_def quote_defs)
  have d: "strip_slash ''api.maptiler.com'' = ''api.maptiler.com''"
    by (simp add: strip_slash_def)
  from t c have "\<exists>call. MapTiler_reverse (spec_base whole_floats str_int) whole_floats
                 (MapTiler_init ''KEY'' ''https'' ''api.maptiler.com'')
                 (Scalar (PtSeq [40, - 74])) () (Some (Scalar ''en'')) True
               = Inr call
          \<and> url call = ''https://api.maptiler.com/geocoding/-74%2C40.json?key=KEY&language=en''"
    by (simp add: language_param_def q u d)
  with h1 h2 h3 c show ?thesis
    by blast
qed

text \<open>
  Claim C10. \<open>_geocode\<close> and \<open>_reverse\<close> called with a string \<open>s\<close> as the language hand
  the transport the same call, hence the same URL, as when called with the list \<open>[s]\<close>,
  all other arguments being equal.
\<close>

theorem language_string_as_list:
  "MapTiler_geocode B F self query tmo proximity (Some (Scalar s)) bbox exactly_one
     = MapTiler_geocode B F self query tmo proximity (Some (Listed [s])) bbox exactly_one
   \<and> MapTiler_reverse B F self rquery tmo (Some (Scalar s)) exactly_one
     = MapTiler_reverse B F self rquery tmo (Some (Listed [s])) exactly_one"
proof -
  have "set_language (Some (Scalar s)) params = set_language (Some (Listed [s])) params"
    for params
    by (simp add: set_language_def)
  then show ?thesis
    by (simp add: MapTiler_geocode_def MapTiler_reverse_def)
qed

subsection \<open>The batch size\<close>















text \<open>The steps do pass on what the parent's code does to the adapter: with a transport
  that resets the field, a batch call leaves it reset.\<close>

lemma parent_can_change_batch_size:
  "max_batch_size (AzureMaps_run resetting_tomtom whole_floats str_int
      (AzureMaps_init ''KEY'' ''https'' ''atlas.microsoft.com'')
      [A_batch_geocode [''Berlin''] True () None]) = 0"
  by (simp add: resetting_tomtom_def sample_tomtom_def AzureMaps_call_batch_geocode_def)





end
